theory Spec2Isabelle
  imports Complex_Main
begin

section \<open>JavaScript values used by the components\<close>

text \<open>
  Strings are lists of characters. A value used as a condition is tested for
  truthiness: \<^verbatim>\<open>null\<close>, \<^verbatim>\<open>undefined\<close> and the empty string are falsy. An absent
  value (\<^verbatim>\<open>null\<close> or \<^verbatim>\<open>undefined\<close>) is \<open>None\<close>.
\<close>

definition truthy :: "string option \<Rightarrow> bool" where
  "truthy v = (case v of None \<Rightarrow> False | Some s \<Rightarrow> s \<noteq> [])"

text \<open>\<^verbatim>\<open>a || b\<close> on an optional string and a string.\<close>

definition orElse :: "string option \<Rightarrow> string \<Rightarrow> string" where
  "orElse v d = (case v of None \<Rightarrow> d | Some s \<Rightarrow> (if s = [] then d else s))"

text \<open>\<^verbatim>\<open>x || undefined\<close>: a falsy session id is passed on as \<^verbatim>\<open>undefined\<close>.\<close>

definition orUndefined :: "string option \<Rightarrow> string option" where
  "orUndefined v = (if truthy v then v else None)"

text \<open>
  \<^verbatim>\<open>String.prototype.trim\<close> removes white space and line terminators from both
  ends. Characters are the code units below 256; among them the white space of
  ECMAScript is TAB, LF, VT, FF, CR, SPACE and NO-BREAK SPACE (code 160).
\<close>

definition isWhitespace :: "char \<Rightarrow> bool" where
  "isWhitespace c = (of_char c \<in> {9, 10, 11, 12, 13, 32, 160 :: nat})"

definition trim :: "string \<Rightarrow> string" where
  "trim s = rev (dropWhile isWhitespace (rev (dropWhile isWhitespace s)))"

definition startsWith :: "string \<Rightarrow> string \<Rightarrow> bool" where
  "startsWith s p = (take (length p) s = p)"

section \<open>Files and validation messages\<close>

text \<open>
  A browser \<^verbatim>\<open>File\<close>: its name, byte size and media type; \<open>fhandle\<close> identifies
  the underlying blob, so two files may agree on name and size and still differ.
\<close>

record jsfile =
  fname :: string
  fsize :: nat
  ftype :: string
  fhandle :: nat

text \<open>
  The messages the validators build. Each is a non-empty string in the source
  (a template over the configured limit), so a message is truthy and the empty
  string \<^verbatim>\<open>''\<close> or \<^verbatim>\<open>null\<close> of the error slot is \<open>None\<close>.
\<close>

datatype message =
    MaximumImagesAllowed nat          \<comment> \<open>\<^verbatim>\<open>Maximum ${maxImages} images allowed.\<close>\<close>
  | InvalidFileType                   \<comment> \<open>\<^verbatim>\<open>Invalid file type. Only ... are allowed.\<close>\<close>
  | FileSizeMustBeLessThan nat        \<comment> \<open>\<^verbatim>\<open>File size must be less than ${maxSizePerImage}MB.\<close>\<close>
  | PleaseSelectImageFilesOnly        \<comment> \<open>\<^verbatim>\<open>Please select image files only\<close>\<close>
  | MaximumImagesAllowedUploader nat  \<comment> \<open>\<^verbatim>\<open>Maximum ${maxFiles} images allowed\<close>\<close>
  | SomeFilesExceedLimit nat          \<comment> \<open>\<^verbatim>\<open>Some files exceed ${maxSizeMB}MB limit\<close>\<close>

section \<open>CombinedInput and ImageUpload: the stateful validator\<close>

text \<open>
  \<^verbatim>\<open>CombinedInput.tsx\<close> and the \<^verbatim>\<open>ImageUpload\<close> component share \<^verbatim>\<open>validateFile\<close>
  and \<^verbatim>\<open>processFiles\<close> line for line. A preview is an object URL; the browser
  hands out a fresh one at every \<^verbatim>\<open>URL.createObjectURL\<close>, modelled by a counter
  that is threaded through. The component state is passed explicitly: a call reads
  the \<^verbatim>\<open>images\<close> of the render it was created in, and the component renders again
  between two user events, so each call sees the state the previous one left.
\<close>

record UploadedImage =
  file_img :: jsfile
  preview :: nat
  originalName :: string
  size_img :: nat

record CombinedInput_state =
  images :: "UploadedImage list"
  dragActive :: bool
  error :: "message option"

definition allowedTypes :: "string list" where
  "allowedTypes = [''image/jpeg'', ''image/jpg'', ''image/png'', ''image/gif'', ''image/webp'']"

definition validateFile :: "nat \<Rightarrow> jsfile \<Rightarrow> message option" where
  "validateFile maxSizePerImage f =
     (if ftype f \<notin> set allowedTypes then Some InvalidFileType
      else if fsize f > maxSizePerImage * 1024 * 1024
        then Some (FileSizeMustBeLessThan maxSizePerImage)
      else None)"

definition isDuplicate :: "UploadedImage list \<Rightarrow> jsfile \<Rightarrow> bool" where
  "isDuplicate imgs f =
     list_ex (\<lambda>img. fname (file_img img) = fname f \<and> fsize (file_img img) = fsize f) imgs"

definition createImage :: "jsfile \<Rightarrow> nat \<Rightarrow> UploadedImage" where
  "createImage f url = \<lparr>file_img = f, preview = url, originalName = fname f, size_img = fsize f\<rparr>"

text \<open>
  The body of \<^verbatim>\<open>fileArray.forEach\<close>. The accumulator is \<^verbatim>\<open>newImages\<close>,
  \<^verbatim>\<open>errorMessage\<close> and the object-URL counter. A file that fails validation
  overwrites \<^verbatim>\<open>errorMessage\<close> and the loop goes on with the next file.
\<close>

fun forEachFile ::
  "nat \<Rightarrow> UploadedImage list \<Rightarrow> jsfile list \<Rightarrow>
   UploadedImage list \<times> message option \<times> nat \<Rightarrow> UploadedImage list \<times> message option \<times> nat"
where
  "forEachFile maxSizePerImage imgs [] acc = acc"
| "forEachFile maxSizePerImage imgs (f # fs) (newImages, errorMessage, url) =
     (case validateFile maxSizePerImage f of
        Some validationError \<Rightarrow>
          forEachFile maxSizePerImage imgs fs (newImages, Some validationError, url)
      | None \<Rightarrow>
          if isDuplicate imgs f
          then forEachFile maxSizePerImage imgs fs (newImages, errorMessage, url)
          else forEachFile maxSizePerImage imgs fs
                 (newImages @ [createImage f url], errorMessage, Suc url))"

text \<open>
  \<^verbatim>\<open>processFiles\<close>: the new component state, the object-URL counter, and the
  argument of \<^verbatim>\<open>onImagesChange\<close> when the parent is notified.
\<close>

definition processFiles ::
  "nat \<Rightarrow> nat \<Rightarrow> jsfile list \<Rightarrow> CombinedInput_state \<Rightarrow> nat \<Rightarrow>
   CombinedInput_state \<times> nat \<times> jsfile list option"
where
  "processFiles maxImages maxSizePerImage fileArray st url =
     (if length (images st) + length fileArray > maxImages
      then (st\<lparr>error := Some (MaximumImagesAllowed maxImages)\<rparr>, url, None)
      else
        (case forEachFile maxSizePerImage (images st) fileArray ([], None, url) of
           (newImages, Some errorMessage, url') \<Rightarrow>
             (st\<lparr>error := Some errorMessage\<rparr>, url', None)
         | (newImages, None, url') \<Rightarrow>
             (let updatedImages = images st @ newImages
              in (st\<lparr>images := updatedImages, error := None\<rparr>, url',
                  Some (map file_img updatedImages)))))"

section \<open>ImageUploader: the stateless validator\<close>

text \<open>
  \<^verbatim>\<open>ImageUploader.processFiles\<close> keeps no list of its own. It clears its error
  slot, keeps the image files of the batch, checks their number and sizes, and
  starts one \<^verbatim>\<open>FileReader\<close> per file; when all have loaded, \<^verbatim>\<open>onImagesSelected\<close>
  receives one record per file. The result is the error slot and the files handed
  to the readers.
\<close>

definition processFiles_uploader ::
  "nat \<Rightarrow> nat \<Rightarrow> jsfile list \<Rightarrow> message option \<times> jsfile list option"
where
  "processFiles_uploader maxFiles maxSizeMB fileArray =
     (let imageFiles = filter (\<lambda>f. startsWith (ftype f) ''image/'') fileArray;
          maxSizeBytes = maxSizeMB * 1024 * 1024
      in if length imageFiles = 0 then (Some PleaseSelectImageFilesOnly, None)
         else if length imageFiles > maxFiles then (Some (MaximumImagesAllowedUploader maxFiles), None)
         else if length (filter (\<lambda>f. fsize f > maxSizeBytes) imageFiles) > 0
           then (Some (SomeFilesExceedLimit maxSizeMB), None)
         else (None, Some imageFiles))"

section \<open>The remote API as seen by the client\<close>

text \<open>
  Every call the components issue is recorded, in order. A JSON body is the list
  of its fields; a multipart body is the list of its form entries.
\<close>

datatype form_value = Text string | Blob jsfile

datatype api_call =
    Post string "(string \<times> string) list"
  | PostForm string "(string \<times> form_value) list"
  | Delete string

section \<open>UnifiedInputBox: upload session\<close>

text \<open>What \<^verbatim>\<open>ImageUploader\<close> passes to \<^verbatim>\<open>onImagesSelected\<close>; the preview is a data URL.\<close>

record SelectedImage =
  file_sel :: jsfile
  preview_sel :: string
  filename_sel :: string
  size_sel :: nat

record ImagePreview =
  preview_ip :: string
  filename :: string
  size_ip :: nat
  detectedJiraKeys_ip :: "string list"
  ocrConfidence :: real

text \<open>
  One entry of \<^verbatim>\<open>data.images\<close> and the \<^verbatim>\<open>data\<close> object of the upload response. The
  response is untyped in the source, so every field may be absent.
\<close>

record ServerImage =
  filename_sv :: "string option"
  detectedJiraKeys_sv :: "string list option"
  ocrConfidence_sv :: "real option"

record UploadData =
  sessionId :: "string option"
  images_data :: "ServerImage list option"
  detectedJiraKeys_data :: "string list option"

record UnifiedInputBox_state =
  images_ui :: "ImagePreview list"
  imageSessionId :: "string option"
  uploading :: bool
  detectedJiraKeys :: "string list"
  showDetectedKeys :: bool
  uploadError :: "string option"

definition initial_ui :: UnifiedInputBox_state where
  "initial_ui = \<lparr>images_ui = [], imageSessionId = None, uploading = False,
     detectedJiraKeys = [], showDetectedKeys = False, uploadError = None\<rparr>"

text \<open>\<^verbatim>\<open>xs[i]\<close>: \<^verbatim>\<open>undefined\<close> out of range.\<close>

definition at_index :: "'a list \<Rightarrow> nat \<Rightarrow> 'a option" where
  "at_index xs i = (if i < length xs then Some (xs ! i) else None)"

text \<open>
  The callback of \<^verbatim>\<open>uploadedImages.map\<close>; \<open>r\<close> is \<^verbatim>\<open>data.images[index]\<close>. The
  optional chaining \<^verbatim>\<open>?.\<close> yields \<^verbatim>\<open>undefined\<close> on an absent entry, and \<^verbatim>\<open>||\<close>
  then takes the local value or the default.
\<close>

definition mergeImage :: "ServerImage option \<Rightarrow> SelectedImage \<Rightarrow> ImagePreview" where
  "mergeImage r img =
     \<lparr>preview_ip = preview_sel img,
      filename = orElse (Option.bind r filename_sv) (filename_sel img),
      size_ip = size_sel img,
      detectedJiraKeys_ip = (case Option.bind r detectedJiraKeys_sv of Some ks \<Rightarrow> ks | None \<Rightarrow> []),
      ocrConfidence = (case Option.bind r ocrConfidence_sv of
                         Some c \<Rightarrow> (if c = 0 then 0 else c) | None \<Rightarrow> 0)\<rparr>"

definition imagePreviews :: "ServerImage list \<Rightarrow> SelectedImage list \<Rightarrow> ImagePreview list" where
  "imagePreviews rs uploadedImages =
     map (\<lambda>(img, index). mergeImage (at_index rs index) img)
       (zip uploadedImages [0 ..< length uploadedImages])"

text \<open>
  \<^verbatim>\<open>handleImagesSelected\<close> up to the \<^verbatim>\<open>await\<close>: the flags it sets and the one
  upload call, with the files appended in the order of \<^verbatim>\<open>uploadedImages\<close>.
\<close>

definition handleImagesSelected_begin ::
  "SelectedImage list \<Rightarrow> UnifiedInputBox_state \<Rightarrow> UnifiedInputBox_state \<times> api_call list"
where
  "handleImagesSelected_begin uploadedImages st =
     (st\<lparr>uploading := True, uploadError := None\<rparr>,
      [PostForm ''/generations/upload-images''
         (map (\<lambda>img. (''images'', Blob (file_sel img))) uploadedImages)])"

text \<open>
  The rest of \<^verbatim>\<open>handleImagesSelected\<close>, once the call has settled. \<open>Inl e\<close> is a
  rejected call with \<^verbatim>\<open>error?.response?.data?.error\<close> equal to \<open>e\<close>; \<open>Inr data\<close> is
  \<^verbatim>\<open>response.data.data\<close>. Reading \<^verbatim>\<open>data.images[index]\<close> when \<^verbatim>\<open>data.images\<close> is absent
  throws inside the \<^verbatim>\<open>try\<close>, which happens as soon as the map callback runs once.
\<close>

definition handleImagesSelected_settle ::
  "SelectedImage list \<Rightarrow> string option + UploadData \<Rightarrow> UnifiedInputBox_state \<Rightarrow> UnifiedInputBox_state"
where
  "handleImagesSelected_settle uploadedImages response st =
     (let failed = (\<lambda>e. st\<lparr>uploadError := Some (orElse e ''Failed to upload images''),
                            uploading := False\<rparr>);
          succeeded = (\<lambda>data previews.
            st\<lparr>images_ui := previews,
               imageSessionId := sessionId data,
               detectedJiraKeys := (case detectedJiraKeys_data data of Some ks \<Rightarrow> ks | None \<Rightarrow> []),
               showDetectedKeys :=
                 (case detectedJiraKeys_data data of
                    Some ks \<Rightarrow> (if length ks > 0 then True else showDetectedKeys st)
                  | None \<Rightarrow> showDetectedKeys st),
               uploading := False\<rparr>)
      in case response of
           Inl e \<Rightarrow> failed e
         | Inr data \<Rightarrow>
             (case images_data data of
                Some rs \<Rightarrow> succeeded data (imagePreviews rs uploadedImages)
              | None \<Rightarrow> (if uploadedImages = [] then succeeded data [] else failed None)))"

definition handleImagesSelected ::
  "SelectedImage list \<Rightarrow> string option + UploadData \<Rightarrow> UnifiedInputBox_state \<Rightarrow>
   UnifiedInputBox_state \<times> api_call list"
where
  "handleImagesSelected uploadedImages response st =
     (case handleImagesSelected_begin uploadedImages st of
        (st', calls) \<Rightarrow> (handleImagesSelected_settle uploadedImages response st', calls))"

text \<open>\<^verbatim>\<open>images.filter((_, i) => i !== index)\<close>.\<close>

definition filterIndex :: "nat \<Rightarrow> 'a list \<Rightarrow> 'a list" where
  "filterIndex index xs = map fst (filter (\<lambda>(x, i). i \<noteq> index) (zip xs [0 ..< length xs]))"

definition handleRemoveImage ::
  "nat \<Rightarrow> UnifiedInputBox_state \<Rightarrow> UnifiedInputBox_state \<times> api_call list"
where
  "handleRemoveImage index st =
     (let newImages = filterIndex index (images_ui st)
      in if length newImages = 0
         then (st\<lparr>images_ui := newImages, imageSessionId := None,
                  detectedJiraKeys := [], showDetectedKeys := False\<rparr>,
               (case imageSessionId st of
                  Some sid \<Rightarrow> (if sid \<noteq> [] then [Delete (''/generations/image-sessions/'' @ sid)] else [])
                | None \<Rightarrow> []))
         else (st\<lparr>images_ui := newImages\<rparr>, []))"

text \<open>
  The cleanup function of the effect registered on \<^verbatim>\<open>[imageSessionId]\<close>, for the
  session id the effect was registered with.
\<close>

definition sessionEffect_cleanup :: "string option \<Rightarrow> api_call list" where
  "sessionEffect_cleanup sid =
     (case sid of
        Some s \<Rightarrow> (if s \<noteq> [] then [Delete (''/generations/image-sessions/'' @ s)] else [])
      | None \<Rightarrow> [])"

text \<open>
  The effect is registered with the dependency list \<^verbatim>\<open>[imageSessionId]\<close>. React
  compares the list between two renders and, when the id differs, runs the cleanup
  that the earlier render registered, which closes over the earlier id, before it
  runs the effect again; the same cleanup runs at unmount. A cleanup that was
  registered with a falsy id sends nothing.
\<close>

definition sessionEffect_rerender :: "string option \<Rightarrow> string option \<Rightarrow> api_call list" where
  "sessionEffect_rerender registered current =
     (if registered \<noteq> current then sessionEffect_cleanup registered else [])"

text \<open>
  A click on the remove button of image \<open>index\<close>, up to the end of the render it
  causes: the handler runs, the component renders with the new state, and the
  effect on the session id is re-run if the id has changed.
\<close>

definition removeImage_click ::
  "nat \<Rightarrow> UnifiedInputBox_state \<Rightarrow> UnifiedInputBox_state \<times> api_call list"
where
  "removeImage_click index st =
     (case handleRemoveImage index st of
        (st', calls) \<Rightarrow>
          (st', calls @ sessionEffect_rerender (imageSessionId st) (imageSessionId st')))"

text \<open>\<^verbatim>\<open>handleAnalyze\<close> and \<^verbatim>\<open>handleGenerate\<close>: the argument handed to the page's callback.\<close>

definition handleAnalyze :: "UnifiedInputBox_state \<Rightarrow> string option" where
  "handleAnalyze st = orUndefined (imageSessionId st)"

definition handleGenerate :: "UnifiedInputBox_state \<Rightarrow> string option" where
  "handleGenerate st = orUndefined (imageSessionId st)"

text \<open>
  The \<^verbatim>\<open>disabled\<close> attributes of the two buttons of \<^verbatim>\<open>UnifiedInputBox\<close>, over the
  text \<^verbatim>\<open>value\<close> and the two flags.
\<close>

definition analyzeDisabled :: "string \<Rightarrow> bool \<Rightarrow> bool \<Rightarrow> bool" where
  "analyzeDisabled val analyzing generating = (analyzing \<or> trim val = [] \<or> generating)"

definition generateDisabled :: "string \<Rightarrow> bool \<Rightarrow> bool \<Rightarrow> bool" where
  "generateDisabled val analyzing generating = (val = [] \<or> generating \<or> analyzing)"

text \<open>
  The same two attributes in the page that hosts \<^verbatim>\<open>CombinedInput\<close>: each button
  reads one flag only.
\<close>

definition analyzeDisabled_page :: "string \<Rightarrow> bool \<Rightarrow> bool" where
  "analyzeDisabled_page issueKey analyzing = (analyzing \<or> trim issueKey = [])"

definition generateDisabled_page :: "string \<Rightarrow> bool \<Rightarrow> bool" where
  "generateDisabled_page issueKey generating = (issueKey = [] \<or> generating)"

text \<open>The session invariant of the data model: a session id iff an image is attached.\<close>

definition session_inv :: "UnifiedInputBox_state \<Rightarrow> bool" where
  "session_inv st = (truthy (imageSessionId st) \<longleftrightarrow> images_ui st \<noteq> [])"

section \<open>GeneratePage: analyze and generate\<close>

text \<open>
  A result slot holds the response body or the \<^verbatim>\<open>{error: ...}\<close> object built in the
  \<^verbatim>\<open>catch\<close>. The body is opaque to the page.
\<close>

datatype 'a result = Loaded 'a | Failed string

record 'a GeneratePage_state =
  issueKey :: string
  prelight :: "'a result option"
  genResult :: "'a result option"
  analyzing :: bool
  generating :: bool

definition payload :: "string \<Rightarrow> string option \<Rightarrow> (string \<times> string) list" where
  "payload key sid_arg =
     [(''issueKey'', trim key)] @
     (case sid_arg of
        Some sid \<Rightarrow> (if sid \<noteq> [] then [(''imageSessionId'', sid)] else [])
      | None \<Rightarrow> [])"

text \<open>
  \<^verbatim>\<open>analyze\<close> and \<^verbatim>\<open>performGeneration\<close> up to the \<^verbatim>\<open>await\<close>: the state they leave and
  the calls they send; \<open>sid_arg\<close> is the parameter \<^verbatim>\<open>imageSessionId\<close>.
\<close>

definition analyze ::
  "string option \<Rightarrow> 'a GeneratePage_state \<Rightarrow> 'a GeneratePage_state \<times> api_call list"
where
  "analyze sid_arg st =
     (if trim (issueKey st) = [] then (st, [])
      else (st\<lparr>analyzing := True, prelight := None\<rparr>,
            [Post ''/generations/prelight'' (payload (issueKey st) sid_arg)]))"

text \<open>
  The continuation of \<^verbatim>\<open>analyze\<close>, once the call has settled. \<open>Inl e\<close> is a rejection
  with \<^verbatim>\<open>err?.response?.data?.error\<close> equal to \<open>e\<close>; \<open>Inr body\<close> is a resolved call
  with \<^verbatim>\<open>res.data\<close> equal to \<open>body\<close>, which is stored as it is (\<open>None\<close> when absent).
\<close>

definition analyze_settle ::
  "string option + 'a option \<Rightarrow> 'a GeneratePage_state \<Rightarrow> 'a GeneratePage_state"
where
  "analyze_settle response st =
     (case response of
        Inr body \<Rightarrow> st\<lparr>prelight := map_option Loaded body, analyzing := False\<rparr>
      | Inl e \<Rightarrow> st\<lparr>prelight := Some (Failed (orElse e ''Analysis failed'')), analyzing := False\<rparr>)"

definition performGeneration ::
  "string option \<Rightarrow> 'a GeneratePage_state \<Rightarrow> 'a GeneratePage_state \<times> api_call list"
where
  "performGeneration sid_arg st =
     (if trim (issueKey st) = [] then (st, [])
      else (st\<lparr>generating := True, genResult := None\<rparr>,
            [Post ''/generations/testcases'' (payload (issueKey st) sid_arg)]))"

text \<open>
  The continuation of \<^verbatim>\<open>performGeneration\<close>. It stores \<^verbatim>\<open>res.data.data\<close>, read inside
  the \<^verbatim>\<open>try\<close>: \<open>Inr None\<close> is a resolved call whose \<^verbatim>\<open>res.data\<close> is absent, where the
  read throws and the \<^verbatim>\<open>catch\<close> stores the fallback message (the thrown error has
  no \<^verbatim>\<open>response\<close>); \<open>Inr (Some inner)\<close> is a resolved call with \<^verbatim>\<open>res.data.data\<close>
  equal to \<open>inner\<close>, stored as it is.
\<close>

definition performGeneration_settle ::
  "string option + 'a option option \<Rightarrow> 'a GeneratePage_state \<Rightarrow> 'a GeneratePage_state"
where
  "performGeneration_settle response st =
     (case response of
        Inr (Some inner) \<Rightarrow> st\<lparr>genResult := map_option Loaded inner, generating := False\<rparr>
      | Inr None \<Rightarrow> st\<lparr>genResult := Some (Failed ''Generation failed''), generating := False\<rparr>
      | Inl e \<Rightarrow> st\<lparr>genResult := Some (Failed (orElse e ''Generation failed'')), generating := False\<rparr>)"

section \<open>The response interceptor of the API client\<close>

record auth =
  accessToken :: "string option"
  user :: "string option"

text \<open>
  Modelled from the spec: the auth store (\<^verbatim>\<open>state/auth\<close>) is not among the sources.
  The spec says of it that it holds the token and the user, and that logout clears
  it.
\<close>

definition logout :: "auth \<Rightarrow> auth" where
  "logout a = a\<lparr>accessToken := None, user := None\<rparr>"

text \<open>
  The session history of the window: the entries behind the current one, the path
  of the current one, and the entries ahead. \<^verbatim>\<open>window.location.replace\<close> puts the
  new address in place of the current entry.
\<close>

record window =
  behind :: "string list"
  pathname :: string
  ahead :: "string list"

datatype navigation = Replace string

definition location_replace :: "string \<Rightarrow> window \<Rightarrow> window" where
  "location_replace url w = w\<lparr>pathname := url\<rparr>"

text \<open>
  The rejection handler of \<^verbatim>\<open>api.interceptors.response\<close>; \<open>status\<close> is
  \<^verbatim>\<open>error.response?.status\<close>. It returns the store, the window and the navigations
  it performed; the error itself is always passed on as a rejection.
\<close>

definition onResponseError ::
  "nat option \<Rightarrow> auth \<Rightarrow> window \<Rightarrow> auth \<times> window \<times> navigation list"
where
  "onResponseError status a w =
     (if status = Some 401
      then (if pathname w \<noteq> ''/login'' \<and> pathname w \<noteq> ''/register''
            then (logout a, location_replace ''/login'' w, [Replace ''/login''])
            else (logout a, w, []))
      else (a, w, []))"

section \<open>Notions used in the statements\<close>

text \<open>The key by which the stateful validator compares files: name and byte size.\<close>

definition file_key :: "jsfile \<Rightarrow> string \<times> nat" where
  "file_key f = (fname f, fsize f)"

text \<open>The filter of \<^verbatim>\<open>ImageUploader\<close>: the media type starts with \<^verbatim>\<open>image/\<close>.\<close>

definition isImageType :: "jsfile \<Rightarrow> bool" where
  "isImageType f = startsWith (ftype f) ''image/''"

subsection \<open>Concrete inputs\<close>

definition png :: "string \<Rightarrow> nat \<Rightarrow> nat \<Rightarrow> jsfile" where
  "png n sz h = \<lparr>fname = n, fsize = sz, ftype = ''image/png'', fhandle = h\<rparr>"

definition empty_input :: CombinedInput_state where
  "empty_input = \<lparr>images = [], dragActive = False, error = None\<rparr>"

definition six_files :: "jsfile list" where
  "six_files = [png ''a.png'' 1000 1, png ''b.png'' 2000 2, png ''c.png'' 3000 3,
     png ''d.png'' 4000 4, png ''e.png'' 5000 5, png ''huge.png'' (11 * 1024 * 1024) 6]"



text \<open>
  A record as \<^verbatim>\<open>ImageUploader\<close> builds it for a file once its reader has loaded; the
  string after \<^verbatim>\<open>data:\<close> stands for the encoded content.
\<close>

definition selected :: "jsfile \<Rightarrow> SelectedImage" where
  "selected f = \<lparr>file_sel = f, preview_sel = ''data:'' @ fname f,
     filename_sel = fname f, size_sel = fsize f\<rparr>"

definition reported :: "string \<Rightarrow> string list \<Rightarrow> real \<Rightarrow> ServerImage" where
  "reported n ks c = \<lparr>filename_sv = Some n, detectedJiraKeys_sv = Some ks, ocrConfidence_sv = Some c\<rparr>"

definition first_batch :: "jsfile list" where
  "first_batch = [png ''a.png'' 1000 1, png ''b.png'' 2000 2, png ''c.png'' 3000 3]"

definition second_batch :: "jsfile list" where
  "second_batch = [png ''d.png'' 4000 4, png ''e.png'' 5000 5, png ''f.png'' 6000 6]"

text \<open>A successful upload response for the files \<open>fs\<close> under session \<open>sid\<close>.\<close>

definition answer :: "string \<Rightarrow> jsfile list \<Rightarrow> string option + UploadData" where
  "answer sid fs = Inr \<lparr>sessionId = Some sid,
     images_data = Some (map (\<lambda>f. reported (fname f) [] 90) fs),
     detectedJiraKeys_data = Some []\<rparr>"

text \<open>One image attached under the session \<^verbatim>\<open>sess-1\<close>, with one detected key shown.\<close>

definition one_image_session :: UnifiedInputBox_state where
  "one_image_session =
     \<lparr>images_ui = [mergeImage (Some (reported ''a.png'' [''ABC-1''] 90)) (selected (png ''a.png'' 1000 1))],
      imageSessionId = Some ''sess-1'', uploading = False,
      detectedJiraKeys = [''ABC-1''], showDetectedKeys = True, uploadError = None\<rparr>"

definition after_first_batch :: UnifiedInputBox_state where
  "after_first_batch =
     fst (handleImagesSelected (map selected first_batch) (answer ''sess-1'' first_batch) initial_ui)"

section \<open>Facts about the helpers\<close>

lemma dropWhile_all: "(\<forall>x \<in> set (dropWhile P xs). P x) \<longleftrightarrow> (\<forall>x \<in> set xs. P x)"
  by (induction xs) auto

lemma trim_empty_iff: "trim s = [] \<longleftrightarrow> (\<forall>c \<in> set s. isWhitespace c)"
  by (simp add: trim_def dropWhile_eq_Nil_conv dropWhile_all)

lemma isDuplicate_key:
  "isDuplicate imgs f \<longleftrightarrow> file_key f \<in> set (map (file_key \<circ> file_img) imgs)"
  by (force simp: isDuplicate_def file_key_def list_ex_iff image_iff)

lemma validateFile_oversized:
  "fsize f > m * 1024 * 1024 \<Longrightarrow> validateFile m f \<noteq> None"
  by (simp add: validateFile_def)

lemma validateFile_allowed:
  "ftype f \<in> set allowedTypes \<Longrightarrow> validateFile m f = Some x \<Longrightarrow> x = FileSizeMustBeLessThan m"
  by (auto simp: validateFile_def split: if_splits)

subsection \<open>The loop over the batch\<close>

lemma forEachFile_files:
  "map file_img (fst (forEachFile m imgs fs (new, e, u))) =
     map file_img new @ filter (\<lambda>f. validateFile m f = None \<and> \<not> isDuplicate imgs f) fs"
  by (induction fs arbitrary: new e u) (auto simp: createImage_def split: option.splits)

lemma forEachFile_error_None:
  "fst (snd (forEachFile m imgs fs (new, e, u))) = None \<longleftrightarrow>
     e = None \<and> (\<forall>f \<in> set fs. validateFile m f = None)"
  by (induction fs arbitrary: new e u) (auto split: option.splits)

lemma forEachFile_error_in:
  "fst (snd (forEachFile m imgs fs (new, e, u))) = Some x \<Longrightarrow>
     e = Some x \<or> (\<exists>f \<in> set fs. validateFile m f = Some x)"
  by (induction fs arbitrary: new e u) (auto split: option.splits if_splits)

subsection \<open>The outcomes of the stateful validator\<close>

lemma processFiles_over_limit:
  "length (images st) + length fs > maxImages \<Longrightarrow>
     processFiles maxImages m fs st u = (st\<lparr>error := Some (MaximumImagesAllowed maxImages)\<rparr>, u, None)"
  by (simp add: processFiles_def)

lemma processFiles_images_cases:
  "images (fst (processFiles maxImages m fs st u)) = images st \<or>
   images (fst (processFiles maxImages m fs st u)) =
     images st @ fst (forEachFile m (images st) fs ([], None, u))"
proof (cases "length (images st) + length fs > maxImages")
  case True
  then show ?thesis by (simp add: processFiles_over_limit)
next
  case False
  obtain new e u' where r: "forEachFile m (images st) fs ([], None, u) = (new, e, u')"
    by (cases "forEachFile m (images st) fs ([], None, u)") auto
  show ?thesis using False r by (cases e) (simp_all add: processFiles_def)
qed

lemma processFiles_accepts:
  assumes "length (images st) + length fs \<le> maxImages" "\<forall>f \<in> set fs. validateFile m f = None"
  shows "processFiles maxImages m fs st u =
     (st\<lparr>images := images st @ fst (forEachFile m (images st) fs ([], None, u)), error := None\<rparr>,
      snd (snd (forEachFile m (images st) fs ([], None, u))),
      Some (map file_img (images st @ fst (forEachFile m (images st) fs ([], None, u)))))"
proof -
  obtain new e u' where r: "forEachFile m (images st) fs ([], None, u) = (new, e, u')"
    by (cases "forEachFile m (images st) fs ([], None, u)") auto
  have "e = None"
    using forEachFile_error_None [of m "images st" fs "[]" None u] r assms(2) by simp
  then show ?thesis using assms(1) r by (simp add: processFiles_def Let_def)
qed

lemma processFiles_rejects:
  assumes "\<exists>f \<in> set fs. validateFile m f \<noteq> None"
  shows "images (fst (processFiles maxImages m fs st u)) = images st \<and>
         error (fst (processFiles maxImages m fs st u)) \<noteq> None \<and>
         snd (snd (processFiles maxImages m fs st u)) = None"
proof (cases "length (images st) + length fs > maxImages")
  case True
  then show ?thesis by (simp add: processFiles_over_limit)
next
  case False
  obtain new e u' where r: "forEachFile m (images st) fs ([], None, u) = (new, e, u')"
    by (cases "forEachFile m (images st) fs ([], None, u)") auto
  have "e \<noteq> None"
    using forEachFile_error_None [of m "images st" fs "[]" None u] r assms by auto
  then obtain x where "e = Some x" by auto
  then show ?thesis using False r by (simp add: processFiles_def)
qed

lemma processFiles_error_from:
  assumes "length (images st) + length fs \<le> maxImages"
    and "error (fst (processFiles maxImages m fs st u)) = Some x"
  shows "\<exists>f \<in> set fs. validateFile m f = Some x"
proof -
  obtain new e u' where r: "forEachFile m (images st) fs ([], None, u) = (new, e, u')"
    by (cases "forEachFile m (images st) fs ([], None, u)") auto
  have "e = Some x" using assms r by (cases e) (simp_all add: processFiles_def)
  then show ?thesis using forEachFile_error_in [of m "images st" fs "[]" None u x] r by simp
qed




subsection \<open>The upload session\<close>

lemma filterIndex_Nil: "filterIndex index [] = []"
  by (simp add: filterIndex_def)

lemma filterIndex_single: "filterIndex 0 [x] = []"
  by (simp add: filterIndex_def)

lemma imagePreviews_length: "length (imagePreviews rs uploadedImages) = length uploadedImages"
  by (simp add: imagePreviews_def)

lemma imagePreviews_nth:
  "i < length uploadedImages \<Longrightarrow>
     imagePreviews rs uploadedImages ! i = mergeImage (at_index rs i) (uploadedImages ! i)"
  by (simp add: imagePreviews_def)

lemma session_inv_initial: "session_inv initial_ui"
  by (simp add: session_inv_def initial_ui_def truthy_def)

lemma session_inv_upload:
  assumes "uploadedImages \<noteq> []" and "images_data data = Some rs" and "truthy (sessionId data)"
  shows "session_inv (fst (handleImagesSelected uploadedImages (Inr data) st))"
proof -
  have "imagePreviews rs uploadedImages \<noteq> []"
    using assms(1) imagePreviews_length [of rs uploadedImages] by auto
  then show ?thesis
    using assms(2,3)
    by (simp add: session_inv_def handleImagesSelected_def handleImagesSelected_begin_def
        handleImagesSelected_settle_def Let_def)
qed

lemma session_inv_upload_failed:
  "session_inv st \<Longrightarrow> session_inv (fst (handleImagesSelected uploadedImages (Inl e) st))"
  by (simp add: session_inv_def handleImagesSelected_def handleImagesSelected_begin_def
      handleImagesSelected_settle_def Let_def)

lemma sessionEffect_cleanup_releases:
  "sid \<noteq> [] \<Longrightarrow> sessionEffect_cleanup (Some sid) = [Delete (''/generations/image-sessions/'' @ sid)]"
  by (simp add: sessionEffect_cleanup_def)

lemma handleRemoveImage_last_image:
  assumes "images_ui st = [img]" and "imageSessionId st = Some sid" and "sid \<noteq> []"
  shows "handleRemoveImage 0 st =
     (st\<lparr>images_ui := [], imageSessionId := None,
         detectedJiraKeys := [], showDetectedKeys := False\<rparr>,
      [Delete (''/generations/image-sessions/'' @ sid)])"
  using assms by (simp add: handleRemoveImage_def filterIndex_single)

lemma session_inv_handleRemoveImage:
  assumes "session_inv st"
  shows "session_inv (fst (handleRemoveImage index st))"
proof (cases "filterIndex index (images_ui st) = []")
  case True
  then show ?thesis by (simp add: handleRemoveImage_def session_inv_def truthy_def)
next
  case False
  then have "images_ui st \<noteq> []" using filterIndex_Nil by metis
  then show ?thesis using False assms by (simp add: handleRemoveImage_def session_inv_def)
qed

lemma removeImage_click_last_image:
  assumes "images_ui st = [img]" and "imageSessionId st = Some sid" and "sid \<noteq> []"
  shows "snd (removeImage_click 0 st) =
     [Delete (''/generations/image-sessions/'' @ sid), Delete (''/generations/image-sessions/'' @ sid)]"
  using assms handleRemoveImage_last_image [OF assms]
  by (simp add: removeImage_click_def sessionEffect_rerender_def sessionEffect_cleanup_def)


section \<open>The claims\<close>

text \<open>
  C1. The claim asks that removing the only attached image clears the local session
  state and issues exactly one release call for the session. At the state with one
  image under session \<^verbatim>\<open>sess-1\<close>, the click clears the state as claimed, but two
  release calls for \<^verbatim>\<open>sess-1\<close> go out: \<^verbatim>\<open>handleRemoveImage\<close> sends one, and the change
  of the session id to none makes the cleanup of the effect on \<^verbatim>\<open>[imageSessionId]\<close>
  send the same call again.
\<close>

theorem remove_last_image_releases_twice:
  "handleRemoveImage 0 one_image_session =
     (\<lparr>images_ui = [], imageSessionId = None, uploading = False,
        detectedJiraKeys = [], showDetectedKeys = False, uploadError = None\<rparr>,
      [Delete ''/generations/image-sessions/sess-1'']) \<and>
   sessionEffect_cleanup (imageSessionId one_image_session) =
     [Delete ''/generations/image-sessions/sess-1''] \<and>
   removeImage_click 0 one_image_session =
     (\<lparr>images_ui = [], imageSessionId = None, uploading = False,
        detectedJiraKeys = [], showDetectedKeys = False, uploadError = None\<rparr>,
      [Delete ''/generations/image-sessions/sess-1'',
       Delete ''/generations/image-sessions/sess-1''])"
  by (simp add: one_image_session_def removeImage_click_def handleRemoveImage_def
      filterIndex_single sessionEffect_rerender_def sessionEffect_cleanup_def)

text \<open>
  C2, as stated, fails on the \<^verbatim>\<open>ImageUploader\<close> path: with three images attached
  in \<^verbatim>\<open>UnifiedInputBox\<close> and a batch of three more, the total of six exceeds five,
  yet the batch passes validation without a limit message and, once uploaded,
  takes the place of the attached images.
\<close>

theorem count_limit_counterexample:
  "length (images_ui after_first_batch) + length second_batch > 5 \<and>
   processFiles_uploader 5 10 second_batch = (None, Some second_batch) \<and>
   images_ui (fst (handleImagesSelected (map selected second_batch)
      (answer ''sess-2'' second_batch) after_first_batch)) \<noteq> images_ui after_first_batch"
  by (simp add: after_first_batch_def handleImagesSelected_def handleImagesSelected_begin_def
      handleImagesSelected_settle_def answer_def first_batch_def second_batch_def imagePreviews_def
      at_index_def initial_ui_def upt_conv_Cons Let_def processFiles_uploader_def png_def
      startsWith_def mergeImage_def selected_def reported_def)

text \<open>
  C2, amended. In \<^verbatim>\<open>CombinedInput\<close> and \<^verbatim>\<open>ImageUpload\<close>, a batch whose file count
  added to the count of accepted images exceeds the configured maximum is rejected
  whole: the accepted list is unchanged, no preview is created, the parent is not
  notified and the limit message is set. In \<^verbatim>\<open>ImageUploader\<close>, which keeps no list,
  a batch with more image files than the configured maximum is rejected whole with
  the limit message.
\<close>

theorem count_limit_rejects_batch:
  "(length (images st) + length fileArray > maxImages \<longrightarrow>
      processFiles maxImages maxSizePerImage fileArray st url =
        (st\<lparr>error := Some (MaximumImagesAllowed maxImages)\<rparr>, url, None) \<and>
      images (fst (processFiles maxImages maxSizePerImage fileArray st url)) = images st) \<and>
   (length (filter isImageType fileArray) > maxFiles \<longrightarrow>
      processFiles_uploader maxFiles maxSizeMB fileArray =
        (Some (MaximumImagesAllowedUploader maxFiles), None))"
  unfolding isImageType_def [abs_def]
  by (simp add: processFiles_over_limit processFiles_uploader_def Let_def)

theorem count_limit_rejects_batch_witness:
  "processFiles 5 10 six_files empty_input 0 =
     (empty_input\<lparr>error := Some (MaximumImagesAllowed 5)\<rparr>, 0, None) \<and>
   processFiles_uploader 5 10 six_files = (Some (MaximumImagesAllowedUploader 5), None)"
  using count_limit_rejects_batch [where st = empty_input and fileArray = six_files
      and maxImages = 5 and maxSizePerImage = 10 and url = 0 and maxFiles = 5 and maxSizeMB = 10]
  by (simp add: six_files_def empty_input_def isImageType_def startsWith_def png_def)

text \<open>
  C3, as stated, fails for two files of one batch: \<^verbatim>\<open>processFiles\<close> compares each
  file with the images accepted before the batch only, so two files of the same
  name and size that arrive together are both accepted.
\<close>

theorem same_batch_duplicate_counterexample:
  "file_key (png ''a.png'' 1000 1) = file_key (png ''a.png'' 1000 2) \<and>
   length (images (fst (processFiles 5 10 [png ''a.png'' 1000 1, png ''a.png'' 1000 2]
      empty_input 0))) = 2"
  by (simp add: file_key_def png_def processFiles_def empty_input_def validateFile_def
      allowedTypes_def isDuplicate_def)

text \<open>
  C3, amended. In \<^verbatim>\<open>CombinedInput\<close> and \<^verbatim>\<open>ImageUpload\<close>, when a batch is within the
  count limit and all its files pass validation, no error is shown and the accepted
  files are those accepted before, followed by the files of the batch whose name and
  size match no image accepted before: a file selected again in a later batch is
  dropped silently. Hence, if the accepted images are unique by name and size and
  the batch repeats no name and size within itself, the accepted images stay unique.
  Files repeated within one batch are not compared with each other, and
  \<^verbatim>\<open>ImageUploader\<close> drops no duplicate: it passes on every image file of a batch it
  accepts.
\<close>

theorem duplicates_dropped_across_batches:
  "(length (images st) + length fileArray \<le> maxImages \<and>
    (\<forall>f \<in> set fileArray. validateFile maxSizePerImage f = None) \<longrightarrow>
      error (fst (processFiles maxImages maxSizePerImage fileArray st url)) = None \<and>
      map file_img (images (fst (processFiles maxImages maxSizePerImage fileArray st url))) =
        map file_img (images st) @ filter (\<lambda>f. \<not> isDuplicate (images st) f) fileArray) \<and>
   (distinct (map (file_key \<circ> file_img) (images st)) \<and> distinct (map file_key fileArray) \<longrightarrow>
      distinct (map (file_key \<circ> file_img)
        (images (fst (processFiles maxImages maxSizePerImage fileArray st url))))) \<and>
   (\<forall>fs. processFiles_uploader maxFiles maxSizeMB fileArray = (None, Some fs) \<longrightarrow>
      fs = filter isImageType fileArray)"
proof -
  let ?r = "processFiles maxImages maxSizePerImage fileArray st url"
  let ?new = "fst (forEachFile maxSizePerImage (images st) fileArray ([], None, url))"
  let ?P = "\<lambda>f. validateFile maxSizePerImage f = None \<and> \<not> isDuplicate (images st) f"
  have files: "map file_img ?new = filter ?P fileArray"
    using forEachFile_files [of maxSizePerImage "images st" fileArray "[]" None url] by simp
  have keys: "map (file_key \<circ> file_img) ?new = map file_key (filter ?P fileArray)"
    using files by (metis map_map)
  have accepted: "error (fst ?r) = None \<and>
      map file_img (images (fst ?r)) =
        map file_img (images st) @ filter (\<lambda>f. \<not> isDuplicate (images st) f) fileArray"
    if lim: "length (images st) + length fileArray \<le> maxImages"
      and ok: "\<forall>f \<in> set fileArray. validateFile maxSizePerImage f = None"
  proof -
    have r: "?r = (st\<lparr>images := images st @ ?new, error := None\<rparr>,
        snd (snd (forEachFile maxSizePerImage (images st) fileArray ([], None, url))),
        Some (map file_img (images st @ ?new)))"
      using processFiles_accepts [OF lim ok] .
    have P: "filter ?P fileArray = filter (\<lambda>f. \<not> isDuplicate (images st) f) fileArray"
      using ok by (auto intro: filter_cong)
    show ?thesis using r files P by simp
  qed
  have unique: "distinct (map (file_key \<circ> file_img) (images (fst ?r)))"
    if d1: "distinct (map (file_key \<circ> file_img) (images st))"
      and d2: "distinct (map file_key fileArray)"
  proof -
    have "distinct (map file_key (filter ?P fileArray))"
      using d2 by (simp add: distinct_map_filter)
    moreover have "set (map (file_key \<circ> file_img) (images st)) \<inter>
        set (map file_key (filter ?P fileArray)) = {}"
      by (auto simp: isDuplicate_key)
    ultimately have "distinct (map (file_key \<circ> file_img) (images st @ ?new))"
      using d1 keys by simp
    then show ?thesis
      using processFiles_images_cases [of maxImages maxSizePerImage fileArray st url] d1 by auto
  qed
  have stateless: "fs = filter isImageType fileArray"
    if "processFiles_uploader maxFiles maxSizeMB fileArray = (None, Some fs)" for fs
    using that unfolding isImageType_def [abs_def]
    by (simp add: processFiles_uploader_def Let_def split: if_splits)
  show ?thesis using accepted unique stateless by blast
qed

theorem duplicates_dropped_across_batches_witness:
  "map file_img (images (fst (processFiles 5 10 [png ''a.png'' 1000 2, png ''b.png'' 2000 3]
      \<lparr>images = [createImage (png ''a.png'' 1000 1) 0], dragActive = False, error = None\<rparr> 1))) =
     [png ''a.png'' 1000 1, png ''b.png'' 2000 3] \<and>
   distinct (map (file_key \<circ> file_img)
     (images (fst (processFiles 5 10 [png ''a.png'' 1000 2, png ''b.png'' 2000 3]
      \<lparr>images = [createImage (png ''a.png'' 1000 1) 0], dragActive = False, error = None\<rparr> 1))))"
  using duplicates_dropped_across_batches
    [where st = "\<lparr>images = [createImage (png ''a.png'' 1000 1) 0], dragActive = False, error = None\<rparr>"
      and fileArray = "[png ''a.png'' 1000 2, png ''b.png'' 2000 3]"
      and maxImages = 5 and maxSizePerImage = 10 and url = 1 and maxFiles = 5 and maxSizeMB = 10]
  by (simp add: png_def createImage_def validateFile_def allowedTypes_def isDuplicate_def
      file_key_def)

text \<open>
  C4. After a successful upload whose response lists the server results \<open>rs\<close>, the
  attached images are as many as the uploaded files, and for every index \<open>i\<close> below
  both lengths the \<open>i\<close>-th attached image keeps the preview and size of the \<open>i\<close>-th
  uploaded file and takes the filename, the detected keys and the OCR confidence
  that the \<open>i\<close>-th server result reports (a filename that is reported empty counts
  as not reported).
\<close>

theorem ocr_metadata_merged_by_index:
  assumes "images_data data = Some rs" and "i < length uploadedImages" and "i < length rs"
  shows "(let st' = fst (handleImagesSelected uploadedImages (Inr data) st);
              merged = images_ui st' ! i
          in length (images_ui st') = length uploadedImages \<and>
             preview_ip merged = preview_sel (uploadedImages ! i) \<and>
             size_ip merged = size_sel (uploadedImages ! i) \<and>
             (\<forall>n. filename_sv (rs ! i) = Some n \<and> n \<noteq> [] \<longrightarrow> filename merged = n) \<and>
             (\<forall>ks. detectedJiraKeys_sv (rs ! i) = Some ks \<longrightarrow> detectedJiraKeys_ip merged = ks) \<and>
             (\<forall>c. ocrConfidence_sv (rs ! i) = Some c \<longrightarrow> ocrConfidence merged = c))"
proof -
  have im: "images_ui (fst (handleImagesSelected uploadedImages (Inr data) st)) =
      imagePreviews rs uploadedImages"
    using assms(1)
    by (simp add: handleImagesSelected_def handleImagesSelected_begin_def
        handleImagesSelected_settle_def Let_def)
  have nth: "imagePreviews rs uploadedImages ! i = mergeImage (Some (rs ! i)) (uploadedImages ! i)"
    using imagePreviews_nth [OF assms(2), of rs] assms(3) by (simp add: at_index_def)
  show ?thesis
    unfolding Let_def im nth
    by (simp add: imagePreviews_length mergeImage_def orElse_def)
qed

theorem ocr_metadata_merged_by_index_witness:
  "(let merged = images_ui (fst (handleImagesSelected
       [selected (png ''a.png'' 1000 1), selected (png ''b.png'' 2000 2)]
       (Inr \<lparr>sessionId = Some ''sess-1'',
             images_data = Some [reported ''upload-0.png'' [] 80,
                                 reported ''upload-1.png'' [''ABC-1''] 95],
             detectedJiraKeys_data = Some [''ABC-1'']\<rparr>) initial_ui)) ! 1
    in filename merged = ''upload-1.png'' \<and> detectedJiraKeys_ip merged = [''ABC-1''] \<and>
       ocrConfidence merged = 95 \<and> size_ip merged = 2000)"
  using ocr_metadata_merged_by_index
    [where data = "\<lparr>sessionId = Some ''sess-1'',
             images_data = Some [reported ''upload-0.png'' [] 80,
                                 reported ''upload-1.png'' [''ABC-1''] 95],
             detectedJiraKeys_data = Some [''ABC-1'']\<rparr>"
      and rs = "[reported ''upload-0.png'' [] 80, reported ''upload-1.png'' [''ABC-1''] 95]"
      and i = 1
      and uploadedImages = "[selected (png ''a.png'' 1000 1), selected (png ''b.png'' 2000 2)]"
      and st = initial_ui]
  by (simp add: Let_def reported_def selected_def png_def)

text \<open>
  C5, as stated, fails on the message: the count check comes first, so a batch of
  six files on an empty list, one of them above 10 MB, is rejected with the limit
  message and not with a size message.
\<close>

theorem oversized_message_counterexample:
  "(\<exists>f \<in> set six_files. fsize f > 10 * 1024 * 1024) \<and>
   error (fst (processFiles 5 10 six_files empty_input 0)) = Some (MaximumImagesAllowed 5) \<and>
   error (fst (processFiles 5 10 six_files empty_input 0)) \<noteq> Some (FileSizeMustBeLessThan 10)"
  by (simp add: six_files_def png_def processFiles_def empty_input_def)

text \<open>
  C5, amended. If a file of the batch is larger than the configured per-file
  maximum, no file of the batch is accepted and an error message is shown: in
  \<^verbatim>\<open>CombinedInput\<close> and \<^verbatim>\<open>ImageUpload\<close> the accepted list is unchanged and the
  parent is not notified, and the message is the size message when the batch is
  within the count limit and every file has an allowed type; in \<^verbatim>\<open>ImageUploader\<close>,
  for an oversized image file, nothing is passed on, and the message is the size
  message when the image files are within the count limit.
\<close>

theorem oversized_file_rejects_batch:
  "((\<exists>f \<in> set fileArray. fsize f > maxSizePerImage * 1024 * 1024) \<longrightarrow>
      images (fst (processFiles maxImages maxSizePerImage fileArray st url)) = images st \<and>
      snd (snd (processFiles maxImages maxSizePerImage fileArray st url)) = None \<and>
      error (fst (processFiles maxImages maxSizePerImage fileArray st url)) \<noteq> None \<and>
      (length (images st) + length fileArray \<le> maxImages \<and>
       (\<forall>f \<in> set fileArray. ftype f \<in> set allowedTypes) \<longrightarrow>
         error (fst (processFiles maxImages maxSizePerImage fileArray st url)) =
           Some (FileSizeMustBeLessThan maxSizePerImage))) \<and>
   ((\<exists>f \<in> set (filter isImageType fileArray). fsize f > maxSizeMB * 1024 * 1024) \<longrightarrow>
      snd (processFiles_uploader maxFiles maxSizeMB fileArray) = None \<and>
      fst (processFiles_uploader maxFiles maxSizeMB fileArray) \<noteq> None \<and>
      (length (filter isImageType fileArray) \<le> maxFiles \<longrightarrow>
         fst (processFiles_uploader maxFiles maxSizeMB fileArray) =
           Some (SomeFilesExceedLimit maxSizeMB)))"
proof -
  let ?r = "processFiles maxImages maxSizePerImage fileArray st url"
  have stateful: "images (fst ?r) = images st \<and> snd (snd ?r) = None \<and> error (fst ?r) \<noteq> None \<and>
      (length (images st) + length fileArray \<le> maxImages \<and>
       (\<forall>f \<in> set fileArray. ftype f \<in> set allowedTypes) \<longrightarrow>
         error (fst ?r) = Some (FileSizeMustBeLessThan maxSizePerImage))"
    if big: "\<exists>f \<in> set fileArray. fsize f > maxSizePerImage * 1024 * 1024"
  proof -
    have bad: "\<exists>f \<in> set fileArray. validateFile maxSizePerImage f \<noteq> None"
      using big validateFile_oversized by blast
    have rej: "images (fst ?r) = images st \<and> error (fst ?r) \<noteq> None \<and> snd (snd ?r) = None"
      using processFiles_rejects [OF bad] .
    have msg: "error (fst ?r) = Some (FileSizeMustBeLessThan maxSizePerImage)"
      if lim: "length (images st) + length fileArray \<le> maxImages"
        and ty: "\<forall>f \<in> set fileArray. ftype f \<in> set allowedTypes"
    proof -
      obtain x where x: "error (fst ?r) = Some x" using rej by auto
      then obtain f where "f \<in> set fileArray" "validateFile maxSizePerImage f = Some x"
        using processFiles_error_from [OF lim] by blast
      then have "x = FileSizeMustBeLessThan maxSizePerImage"
        using ty validateFile_allowed by blast
      then show ?thesis using x by simp
    qed
    show ?thesis using rej msg by blast
  qed
  have stateless: "snd (processFiles_uploader maxFiles maxSizeMB fileArray) = None \<and>
      fst (processFiles_uploader maxFiles maxSizeMB fileArray) \<noteq> None \<and>
      (length (filter isImageType fileArray) \<le> maxFiles \<longrightarrow>
         fst (processFiles_uploader maxFiles maxSizeMB fileArray) =
           Some (SomeFilesExceedLimit maxSizeMB))"
    if big: "\<exists>f \<in> set (filter isImageType fileArray). fsize f > maxSizeMB * 1024 * 1024"
  proof -
    have ne: "filter (\<lambda>f. fsize f > maxSizeMB * 1024 * 1024) (filter isImageType fileArray) \<noteq> []"
      using big by (auto simp: filter_empty_conv)
    have ne': "filter isImageType fileArray \<noteq> []"
      using big by (auto simp: filter_empty_conv)
    show ?thesis
      using ne ne' unfolding isImageType_def [abs_def]
      by (simp add: processFiles_uploader_def Let_def)
  qed
  show ?thesis using stateful stateless by blast
qed

theorem oversized_file_rejects_batch_witness:
  "processFiles 5 10 [png ''a.png'' 1000 1, png ''huge.png'' (11 * 1024 * 1024) 2] empty_input 0 =
     (empty_input\<lparr>error := Some (FileSizeMustBeLessThan 10)\<rparr>, 1, None) \<and>
   processFiles_uploader 5 10 [png ''a.png'' 1000 1, png ''huge.png'' (11 * 1024 * 1024) 2] =
     (Some (SomeFilesExceedLimit 10), None)"
  using oversized_file_rejects_batch
    [where fileArray = "[png ''a.png'' 1000 1, png ''huge.png'' (11 * 1024 * 1024) 2]"
      and maxSizePerImage = 10 and maxImages = 5 and st = empty_input and url = 0
      and maxSizeMB = 10 and maxFiles = 5]
  by (simp add: png_def empty_input_def allowedTypes_def processFiles_def validateFile_def
      isDuplicate_def processFiles_uploader_def startsWith_def createImage_def)

text \<open>
  C6, as stated, fails in \<^verbatim>\<open>UnifiedInputBox\<close>: with the text \<^verbatim>\<open>ABC-1\<close>, no analysis
  in flight and a generation in flight, the analyze button is disabled, although
  the trimmed text is non-empty and the analyzing flag is false.
\<close>

theorem own_flag_only_counterexample:
  "\<not> ((\<not> analyzeDisabled ''ABC-1'' False True) \<longleftrightarrow> (trim ''ABC-1'' \<noteq> [] \<and> \<not> False))"
  by (simp add: analyzeDisabled_def trim_def isWhitespace_def)

text \<open>
  C6, amended. In \<^verbatim>\<open>UnifiedInputBox\<close> each action is gated on both in-flight flags:
  analyze is enabled iff the trimmed text is non-empty and neither flag is set;
  generate is enabled when the trimmed text is non-empty and neither flag is set,
  and disabled when the text is empty or either flag is set. In the page that hosts
  \<^verbatim>\<open>CombinedInput\<close> each action is gated on its own flag: analyze is enabled iff the
  trimmed text is non-empty and the analyzing flag is false; generate is enabled
  when the trimmed text is non-empty and the generating flag is false, and disabled
  when the text is empty or the generating flag is set. Nothing is said of the
  generate button on a text of white space only.
\<close>

theorem action_gating:
  "((\<not> analyzeDisabled val a g) \<longleftrightarrow> (trim val \<noteq> [] \<and> \<not> a \<and> \<not> g)) \<and>
   (trim val \<noteq> [] \<and> \<not> g \<and> \<not> a \<longrightarrow> \<not> generateDisabled val a g) \<and>
   (val = [] \<or> g \<or> a \<longrightarrow> generateDisabled val a g) \<and>
   ((\<not> analyzeDisabled_page val a) \<longleftrightarrow> (trim val \<noteq> [] \<and> \<not> a)) \<and>
   (trim val \<noteq> [] \<and> \<not> g \<longrightarrow> \<not> generateDisabled_page val g) \<and>
   (val = [] \<or> g \<longrightarrow> generateDisabled_page val g)"
  by (auto simp: analyzeDisabled_def generateDisabled_def analyzeDisabled_page_def
      generateDisabled_page_def trim_def)

theorem action_gating_witness:
  "\<not> analyzeDisabled ''ABC-1'' False False \<and> \<not> generateDisabled ''ABC-1'' False False \<and>
   \<not> analyzeDisabled_page ''ABC-1'' False \<and> \<not> generateDisabled_page ''ABC-1'' False \<and>
   generateDisabled ''ABC-1'' True False \<and> generateDisabled_page ''ABC-1'' True"
  using action_gating [where val = "''ABC-1''" and a = False and g = False]
    action_gating [where val = "''ABC-1''" and a = True and g = False]
    action_gating [where val = "''ABC-1''" and a = False and g = True]
  by (simp add: trim_def isWhitespace_def)

text \<open>
  C7. With the issue-key text \<^verbatim>\<open>SDETPRO-123\<close> and no image attached (so, by the
  session invariant, no session id), analyze as invoked through \<^verbatim>\<open>handleAnalyze\<close>
  sends exactly one request: a POST to \<^verbatim>\<open>/generations/prelight\<close> whose body has the
  single field \<^verbatim>\<open>issueKey\<close> with value \<^verbatim>\<open>SDETPRO-123\<close>.
\<close>

theorem analyze_without_images:
  assumes "issueKey st = ''SDETPRO-123''" and "images_ui ui = []" and "session_inv ui"
  shows "snd (analyze (handleAnalyze ui) st) =
           [Post ''/generations/prelight'' [(''issueKey'', ''SDETPRO-123'')]]"
proof -
  have "\<not> truthy (imageSessionId ui)" using assms(2,3) by (simp add: session_inv_def)
  then have "handleAnalyze ui = None" by (simp add: handleAnalyze_def orUndefined_def)
  moreover have "trim ''SDETPRO-123'' = ''SDETPRO-123''"
    by (simp add: trim_def isWhitespace_def)
  ultimately show ?thesis using assms(1) by (simp add: analyze_def payload_def)
qed

theorem analyze_without_images_witness:
  "snd (analyze (handleAnalyze initial_ui)
     \<lparr>issueKey = ''SDETPRO-123'', prelight = None :: nat result option, genResult = None,
      analyzing = False, generating = False\<rparr>) =
   [Post ''/generations/prelight'' [(''issueKey'', ''SDETPRO-123'')]]"
  using analyze_without_images
    [where st = "\<lparr>issueKey = ''SDETPRO-123'', prelight = None :: nat result option,
        genResult = None, analyzing = False, generating = False\<rparr>" and ui = initial_ui]
  by (simp add: initial_ui_def session_inv_def truthy_def)

text \<open>
  C8. On a response with status 401 the interceptor clears the credentials
  (logout). If the window is on neither \<^verbatim>\<open>/login\<close> nor \<^verbatim>\<open>/register\<close> it navigates
  exactly once, by \<^verbatim>\<open>location.replace\<close>, to \<^verbatim>\<open>/login\<close>: the current history entry
  becomes \<^verbatim>\<open>/login\<close> and the entries behind and ahead are unchanged, so no entry is
  added. If the window is on \<^verbatim>\<open>/login\<close> or \<^verbatim>\<open>/register\<close> it does not navigate.
\<close>

theorem unauthorized_logs_out_and_redirects:
  assumes "status = Some 401"
  shows "(case onResponseError status a w of (a', w', navs) \<Rightarrow>
           accessToken a' = None \<and> user a' = None \<and>
           (pathname w \<noteq> ''/login'' \<and> pathname w \<noteq> ''/register'' \<longrightarrow>
              navs = [Replace ''/login''] \<and> pathname w' = ''/login'' \<and>
              behind w' = behind w \<and> ahead w' = ahead w) \<and>
           (pathname w = ''/login'' \<or> pathname w = ''/register'' \<longrightarrow> navs = [] \<and> w' = w))"
  using assms by (simp add: onResponseError_def logout_def location_replace_def)

theorem unauthorized_logs_out_and_redirects_witness:
  "onResponseError (Some 401) \<lparr>accessToken = Some ''token'', user = Some ''qa@example.com''\<rparr>
      \<lparr>behind = [''/dashboard''], pathname = ''/'', ahead = []\<rparr> =
   (\<lparr>accessToken = None, user = None\<rparr>,
    \<lparr>behind = [''/dashboard''], pathname = ''/login'', ahead = []\<rparr>, [Replace ''/login''])"
  using unauthorized_logs_out_and_redirects [where status = "Some 401"
      and a = "\<lparr>accessToken = Some ''token'', user = Some ''qa@example.com''\<rparr>"
      and w = "\<lparr>behind = [''/dashboard''], pathname = ''/'', ahead = []\<rparr>"]
  by (simp add: onResponseError_def logout_def location_replace_def)




text \<open>
  C10. When the issue-key text is empty or consists of white space only, \<^verbatim>\<open>analyze\<close>
  and \<^verbatim>\<open>performGeneration\<close> return at once: no request is sent and the page state
  (the prelight result, the generation result and both in-flight flags) is unchanged.
\<close>

theorem blank_issue_key_is_noop:
  assumes "\<forall>c \<in> set (issueKey st). isWhitespace c"
  shows "analyze sid st = (st, []) \<and> performGeneration sid st = (st, [])"
  using assms by (simp add: analyze_def performGeneration_def trim_empty_iff)

theorem blank_issue_key_is_noop_witness:
  "analyze (Some ''sess-1'')
     \<lparr>issueKey = ''   '', prelight = Some (Loaded (1::nat)), genResult = None,
      analyzing = False, generating = True\<rparr> =
   (\<lparr>issueKey = ''   '', prelight = Some (Loaded 1), genResult = None,
      analyzing = False, generating = True\<rparr>, []) \<and>
   performGeneration (Some ''sess-1'')
     \<lparr>issueKey = ''   '', prelight = Some (Loaded (1::nat)), genResult = None,
      analyzing = False, generating = True\<rparr> =
   (\<lparr>issueKey = ''   '', prelight = Some (Loaded 1), genResult = None,
      analyzing = False, generating = True\<rparr>, [])"
  using blank_issue_key_is_noop
    [where st = "\<lparr>issueKey = ''   '', prelight = Some (Loaded (1::nat)), genResult = None,
        analyzing = False, generating = True\<rparr>" and sid = "Some ''sess-1''"]
  by (simp add: isWhitespace_def)

end
